theory Spec2Isabelle
  imports Main
begin

section \<open>The object node's route table (objectnode/router.go)\<close>

text \<open>
  \<^verbatim>\<open>registerApiRouters\<close> builds the route table of the S3 gateway with the
  gorilla/mux router: a route is a conjunction of matchers (method, host template,
  path template, query templates, header patterns) and a handler. This theory embeds
  the table as it is written in the source, with the template strings of the source, and
  gives the router calls the meaning they have in the library (the 1.7 series, the one
  with \<^verbatim>\<open>ErrMethodMismatch\<close>): templates are parsed into regular expressions, a
  route whose construction failed keeps an error and never matches, routes are tried in
  the order of registration and the first route whose matchers all accept is selected.
\<close>

subsection \<open>Requests\<close>

text \<open>
  The parts of \<^verbatim>\<open>http.Request\<close> the matchers read: the method, the host, the
  decoded path, the query values (\<^verbatim>\<open>URL.Query()\<close>, the list of values of a key, empty
  when the key is absent) and the header values by header name.
\<close>

record Request =
  reqMethod :: string
  reqHost :: string
  reqPath :: string
  reqQuery :: "string \<Rightarrow> string list"
  reqHeader :: "string \<Rightarrow> string list"

definition MethodHead :: string where "MethodHead = ''HEAD''"
definition MethodGet :: string where "MethodGet = ''GET''"
definition MethodPost :: string where "MethodPost = ''POST''"
definition MethodPut :: string where "MethodPut = ''PUT''"
definition MethodDelete :: string where "MethodDelete = ''DELETE''"

subsection \<open>Actions and handlers\<close>

text \<open>
  The \<^verbatim>\<open>Action\<close> constants and the handler methods of \<^verbatim>\<open>ObjectNode\<close> are declared
  in other files of the package; router.go only names them. They are opaque tokens here.
\<close>

datatype Action =
    GetObjectAction | ListBucketAction | GetBucketPolicyAction | GetObjectAclAction
  | ListMultipartUploadPartsAction | GetBucketLocationAction | GetBucketAclAction
  | PutObjectAction | DeleteObjectAction | PutBucketPolicyAction | PutObjectAclAction
  | PutBucketAclAction | AbortMultipartUploadAction | DeleteBucketPolicyAction

datatype Handler =
    headObjectHandler | headBucketHandler
  | getObjectHandler | getObjectTagging | getObjectXAttr | listObjectXAttrs
  | getObjectACLHandler | getBucketV2Handler | listMultipartUploadsHandler
  | listPartsHandler | getBucketLocation | getBucketPolicyHandler | getBucketACLHandler
  | getBucketV1Handler
  | createMultipleUploadHandler | completeMultipartUploadHandler | deleteObjectsHandler
  | uploadPartHandler | copyObjectHandler | putObjectTagging | putObjectXAttr
  | putObjectACLHandler | putObjectHandler | putBucketACLHandler | putBucketPolicyHandler
  | abortMultipartUploadHandler | deleteObjectTagging | deleteObjectXAttr
  | deleteObjectHandler | deleteBucketPolicyHandler
  | listBucketsHandler | unsupportedOperationHandler

text \<open>
  What a route is given as its \<^verbatim>\<open>http.HandlerFunc\<close>: either the handler wrapped by
  \<^verbatim>\<open>o.policyCheck(handler, actions)\<close>, or the handler method itself.
\<close>

datatype HttpHandler = policyCheck Handler "Action list" | bare Handler

text \<open>
  \<^verbatim>\<open>HeaderNameCopySource\<close> is a constant of the package declared outside router.go.
  Modelled from the spec: the name of the copy-source header; no theorem below depends on
  its value.
\<close>

definition HeaderNameCopySource :: string where
  "HeaderNameCopySource = ''X-Amz-Copy-Source''"

subsection \<open>Regular expressions of route templates\<close>

text \<open>
  The variable patterns that occur in router.go are all one character class under
  \<^verbatim>\<open>+\<close> or \<^verbatim>\<open>*\<close>: \<^verbatim>\<open>.+\<close>, \<^verbatim>\<open>.*\<close>, \<^verbatim>\<open>[0-9]+\<close>, and the library's
  defaults \<^verbatim>\<open>[^/]+\<close> (path), \<^verbatim>\<open>[^.]+\<close> (host) and \<^verbatim>\<open>.*\<close> (query). In Go's
  regexp syntax \<^verbatim>\<open>.\<close> matches every character but the newline, and a negated class
  matches the newline too. A compiled template is a list of segments: quoted literal
  text and repetitions of a class with a minimal count.
\<close>

datatype cclass = AnyChar | Digit | NotSlash | NotDot

fun inClass :: "cclass \<Rightarrow> char \<Rightarrow> bool" where
  "inClass AnyChar c = (c \<noteq> CHR 0x0A)"
| "inClass Digit c = (c \<in> set ''0123456789'')"
| "inClass NotSlash c = (c \<noteq> CHR ''/'')"
| "inClass NotDot c = (c \<noteq> CHR ''.'')"

datatype seg = Lit string | Rep cclass nat

definition compilePattern :: "string \<Rightarrow> (cclass \<times> nat) option" where
  "compilePattern patt =
     (if patt = ''.+'' then Some (AnyChar, 1)
      else if patt = ''.*'' then Some (AnyChar, 0)
      else if patt = ''[0-9]+'' then Some (Digit, 1)
      else if patt = ''[^/]+'' then Some (NotSlash, 1)
      else if patt = ''[^.]+'' then Some (NotDot, 1)
      else None)"

fun firstSome :: "('a \<Rightarrow> 'b option) \<Rightarrow> 'a list \<Rightarrow> 'b option" where
  "firstSome f [] = None"
| "firstSome f (x # xs) = (case f x of Some y \<Rightarrow> Some y | None \<Rightarrow> firstSome f xs)"

text \<open>
  \<^verbatim>\<open>FindStringSubmatch\<close> of a compiled template, anchored at the start (every
  template begins with \<^verbatim>\<open>^\<close>) and, unless it is a prefix template, at the end. The
  repetitions are greedy: the longest run is tried first and shortened until the rest of
  the expression matches. The result lists the text each repetition took.
\<close>

primrec FindSubmatch :: "seg list \<Rightarrow> bool \<Rightarrow> string \<Rightarrow> string list option" where
  "FindSubmatch [] anchored s = (if anchored \<and> s \<noteq> [] then None else Some [])"
| "FindSubmatch (g # gs) anchored s =
     (case g of
        Lit l \<Rightarrow>
          (if take (length l) s = l then FindSubmatch gs anchored (drop (length l) s)
           else None)
      | Rep c m \<Rightarrow>
          firstSome
            (\<lambda>n. map_option ((#) (take n s)) (FindSubmatch gs anchored (drop n s)))
            (rev [m ..< Suc (length (takeWhile (inClass c) s))]))"

subsection \<open>Templates (mux/regexp.go)\<close>

datatype regexpType = regexpTypePath | regexpTypeHost | regexpTypePrefix | regexpTypeQuery

record routeRegexp =
  template :: string
  regexpType :: regexpType
  regexp :: "seg list"
  varsN :: "string list"

text \<open>
  \<^verbatim>\<open>braceIndices\<close>: the positions of the top-level brace pairs of a template, or an
  error (\<open>None\<close>) when the braces are unbalanced. The arguments of the loop are the
  rest of the template, the index \<open>i\<close>, the nesting level, the index of the open
  brace and the pairs found so far.
\<close>

fun braceLoop :: "string \<Rightarrow> nat \<Rightarrow> nat \<Rightarrow> nat \<Rightarrow> (nat \<times> nat) list
    \<Rightarrow> (nat \<times> nat) list option" where
  "braceLoop [] i level idx idxs = (if level \<noteq> 0 then None else Some idxs)"
| "braceLoop (ch # s) i level idx idxs =
     (if ch = CHR ''{'' then
        braceLoop s (Suc i) (Suc level) (if level = 0 then i else idx) idxs
      else if ch = CHR ''}'' then
        (if level = 0 then None
         else if level = 1 then braceLoop s (Suc i) 0 idx (idxs @ [(idx, Suc i)])
         else braceLoop s (Suc i) (level - 1) idx idxs)
      else braceLoop s (Suc i) level idx idxs)"

definition braceIndices :: "string \<Rightarrow> (nat \<times> nat) list option" where
  "braceIndices s = braceLoop s 0 0 0 []"

definition substr :: "string \<Rightarrow> nat \<Rightarrow> nat \<Rightarrow> string" where
  "substr s a b = take (b - a) (drop a s)"

text \<open>\<^verbatim>\<open>strings.SplitN(s, sep, 2)\<close>: the text before the first separator and, when
  there is a separator, the text after it.\<close>

definition SplitN2 :: "string \<Rightarrow> char \<Rightarrow> string \<times> string option" where
  "SplitN2 s sep =
     (takeWhile (\<lambda>c. c \<noteq> sep) s,
      if sep \<in> set s then Some (tl (dropWhile (\<lambda>c. c \<noteq> sep) s)) else None)"

definition defaultPattern :: "regexpType \<Rightarrow> string" where
  "defaultPattern typ =
     (if typ = regexpTypeQuery then ''.*''
      else if typ = regexpTypeHost then ''[^.]+''
      else ''[^/]+'')"

text \<open>
  The loop of \<^verbatim>\<open>newRouteRegexp\<close> over the brace pairs: the raw text before a
  variable is quoted, the variable \<^verbatim>\<open>{name:pattern}\<close> becomes a group; a variable with
  an empty name or pattern is an error. A pattern outside the fragment above is rejected
  here (router.go has none). The result is the segments, the variable names and the
  position after the last variable.
\<close>

fun parseVars :: "string \<Rightarrow> string \<Rightarrow> nat \<Rightarrow> (nat \<times> nat) list
    \<Rightarrow> (seg list \<times> string list \<times> nat) option" where
  "parseVars tpl dflt e [] = Some ([], [], e)"
| "parseVars tpl dflt e ((a, b) # idxs) =
     (let raw = substr tpl e a;
          parts = SplitN2 (substr tpl (Suc a) (b - 1)) (CHR '':'');
          name = fst parts;
          patt = (case snd parts of None \<Rightarrow> dflt | Some p \<Rightarrow> p)
      in if name = [] \<or> patt = [] then None
         else case compilePattern patt of
                None \<Rightarrow> None
              | Some (c, m) \<Rightarrow>
                  (case parseVars tpl dflt b idxs of
                     None \<Rightarrow> None
                   | Some (segs, vars, e') \<Rightarrow>
                       Some (Lit raw # Rep c m # segs, name # vars, e')))"

text \<open>
  \<^verbatim>\<open>newRouteRegexp\<close> (strict slash is off). A query template with an empty value gets
  the default pattern appended, so that \<^verbatim>\<open>Queries("tagging", "")\<close> accepts the key
  with any value. Every template but a prefix template is anchored at the end, which
  \<open>regexpMatch\<close> reads off the type.
\<close>

definition newRouteRegexp :: "string \<Rightarrow> regexpType \<Rightarrow> routeRegexp option" where
  "newRouteRegexp tpl typ =
     (case braceIndices tpl of
        None \<Rightarrow> None
      | Some idxs \<Rightarrow>
          (case parseVars tpl (defaultPattern typ) 0 idxs of
             None \<Rightarrow> None
           | Some (segs, vars, e) \<Rightarrow>
               (if typ = regexpTypeQuery \<and> snd (SplitN2 tpl (CHR ''='')) = None then None
                else
                  Some \<lparr>template = tpl, regexpType = typ,
                        regexp = segs @ [Lit (drop e tpl)] @
                          (if typ = regexpTypeQuery \<and> snd (SplitN2 tpl (CHR ''='')) = Some []
                           then [Rep AnyChar 0] else []),
                        varsN = vars\<rparr>)))"

text \<open>\<^verbatim>\<open>getURLQuery\<close>: the first value of the template's key, as \<^verbatim>\<open>key=value\<close>, or
  the empty string when the key is absent.\<close>

definition getURLQuery :: "routeRegexp \<Rightarrow> Request \<Rightarrow> string" where
  "getURLQuery rr req =
     (let templateKey = fst (SplitN2 (template rr) (CHR ''=''))
      in case reqQuery req templateKey of
           [] \<Rightarrow> []
         | v # _ \<Rightarrow> templateKey @ ''='' @ v)"

definition regexpInput :: "routeRegexp \<Rightarrow> Request \<Rightarrow> string" where
  "regexpInput rr req =
     (if regexpType rr = regexpTypeHost then reqHost req
      else if regexpType rr = regexpTypeQuery then getURLQuery rr req
      else reqPath req)"

definition regexpSubmatch :: "routeRegexp \<Rightarrow> Request \<Rightarrow> string list option" where
  "regexpSubmatch rr req =
     FindSubmatch (regexp rr) (regexpType rr \<noteq> regexpTypePrefix) (regexpInput rr req)"

definition regexpMatch :: "routeRegexp \<Rightarrow> Request \<Rightarrow> bool" where
  "regexpMatch rr req = (regexpSubmatch rr req \<noteq> None)"

subsection \<open>Routes and their construction (mux/route.go)\<close>

text \<open>
  The pattern given to \<^verbatim>\<open>HeadersRegexp\<close> is matched unanchored
  (\<^verbatim>\<open>MatchString\<close>). The only one in router.go is \<^verbatim>\<open>.*?(\/|%2F).*?\<close>, which
  holds of exactly the values that contain \<^verbatim>\<open>/\<close> or \<^verbatim>\<open>%2F\<close>; any other
  pattern is rejected here.
\<close>

datatype hregexp = ContainsAny "string list"

definition copySourcePattern :: string where
  "copySourcePattern = ''.*?('' @ [CHR 0x5C] @ ''/|%2F).*?''"

definition compileHeaderRegexp :: "string \<Rightarrow> hregexp option" where
  "compileHeaderRegexp patt =
     (if patt = copySourcePattern then Some (ContainsAny [''/'', ''%2F'']) else None)"

definition contains :: "string \<Rightarrow> string \<Rightarrow> bool" where
  "contains s sub = list_ex (\<lambda>i. take (length sub) (drop i s) = sub) [0 ..< Suc (length s)]"

fun MatchString :: "hregexp \<Rightarrow> string \<Rightarrow> bool" where
  "MatchString (ContainsAny subs) s = list_ex (contains s) subs"

datatype matcher =
    methodMatcher "string list"
  | regexpMatcher routeRegexp
  | headerRegexMatcher "(string \<times> hregexp) list"

text \<open>
  A route: its matchers, the templates it was built from (the library's
  \<^verbatim>\<open>routeRegexpGroup\<close>), its handler and its construction error. A sub-router is
  created from a route and hands that route's matchers and templates down to the routes
  registered on it (\<^verbatim>\<open>copyRouteConf\<close>); it is consulted only when its parent route
  matches, and never when the parent carries an error, so here a sub-router is the
  parent's configuration and a route registered on it starts from a copy of that.
\<close>

record Route =
  matchers :: "matcher list"
  regexp_host :: "routeRegexp option"
  regexp_path :: "routeRegexp option"
  regexp_queries :: "routeRegexp list"
  handler :: "HttpHandler option"
  err :: bool

definition NewRouter :: Route where
  "NewRouter = \<lparr>matchers = [], regexp_host = None, regexp_path = None,
                 regexp_queries = [], handler = None, err = False\<rparr>"

definition Subrouter :: "Route \<Rightarrow> Route" where
  "Subrouter r = r\<lparr>handler := None\<rparr>"

definition NewRoute :: "Route \<Rightarrow> Route" where
  "NewRoute conf = conf\<lparr>handler := None\<rparr>"

definition addMatcher :: "matcher \<Rightarrow> Route \<Rightarrow> Route" where
  "addMatcher m r = (if err r then r else r\<lparr>matchers := matchers r @ [m]\<rparr>)"

definition TrimRight :: "string \<Rightarrow> char \<Rightarrow> string" where
  "TrimRight s c = rev (dropWhile (\<lambda>x. x = c) (rev s))"

text \<open>\<^verbatim>\<open>uniqueVars\<close> holds when the two lists of variable names are disjoint.\<close>

definition uniqueVars :: "string list \<Rightarrow> string list \<Rightarrow> bool" where
  "uniqueVars s1 s2 = list_all (\<lambda>v. v \<notin> set s2) s1"

definition isPathType :: "regexpType \<Rightarrow> bool" where
  "isPathType typ = (typ = regexpTypePath \<or> typ = regexpTypePrefix)"

text \<open>
  \<^verbatim>\<open>addRegexpMatcher\<close>, in the order of the library: a route with an error
  is left alone; a path template must start with a slash and is appended to the path
  template the route inherited; the template is compiled; its variables must differ
  from those of the query templates of the route and from those of its host template
  (of its path template, for a host template); then the compiled template is stored
  and added to the matchers.
\<close>

definition fullTemplate :: "string \<Rightarrow> regexpType \<Rightarrow> Route \<Rightarrow> string" where
  "fullTemplate tpl typ r =
     (if isPathType typ
      then (case regexp_path r of
              Some p \<Rightarrow> TrimRight (template p) (CHR ''/'') @ tpl
            | None \<Rightarrow> tpl)
      else tpl)"

definition varsClash :: "routeRegexp \<Rightarrow> regexpType \<Rightarrow> Route \<Rightarrow> bool" where
  "varsClash rr typ r =
     (\<not> list_all (\<lambda>q. uniqueVars (varsN rr) (varsN q)) (regexp_queries r) \<or>
      (case (if typ = regexpTypeHost then regexp_path r else regexp_host r) of
         Some x \<Rightarrow> \<not> uniqueVars (varsN rr) (varsN x)
       | None \<Rightarrow> False))"

definition storeRegexp :: "routeRegexp \<Rightarrow> regexpType \<Rightarrow> Route \<Rightarrow> Route" where
  "storeRegexp rr typ r =
     (if typ = regexpTypeHost then r\<lparr>regexp_host := Some rr\<rparr>
      else if typ = regexpTypeQuery then r\<lparr>regexp_queries := regexp_queries r @ [rr]\<rparr>
      else r\<lparr>regexp_path := Some rr\<rparr>)"

definition addRegexpMatcher :: "string \<Rightarrow> regexpType \<Rightarrow> Route \<Rightarrow> Route" where
  "addRegexpMatcher tpl typ r =
     (if err r then r
      else if isPathType typ \<and> tpl \<noteq> [] \<and> hd tpl \<noteq> CHR ''/'' then r\<lparr>err := True\<rparr>
      else case newRouteRegexp (fullTemplate tpl typ r) typ of
             None \<Rightarrow> r\<lparr>err := True\<rparr>
           | Some rr \<Rightarrow>
               if varsClash rr typ r then r\<lparr>err := True\<rparr>
               else addMatcher (regexpMatcher rr) (storeRegexp rr typ r))"

text \<open>
  The methods of \<^verbatim>\<open>Route\<close> that router.go chains. \<^verbatim>\<open>Methods\<close> upper-cases its
  arguments, which are the upper-case constants of net/http. \<^verbatim>\<open>HandlerFunc\<close> sets the
  handler only while the route has no error. \<^verbatim>\<open>Queries\<close> takes the flat list of
  key/value arguments and fails on an odd number of them.
\<close>

definition Methods :: "string list \<Rightarrow> Route \<Rightarrow> Route" where
  "Methods ms r = addMatcher (methodMatcher ms) r"

definition Path :: "string \<Rightarrow> Route \<Rightarrow> Route" where
  "Path tpl r = addRegexpMatcher tpl regexpTypePath r"

definition PathPrefix :: "string \<Rightarrow> Route \<Rightarrow> Route" where
  "PathPrefix tpl r = addRegexpMatcher tpl regexpTypePrefix r"

definition Host :: "string \<Rightarrow> Route \<Rightarrow> Route" where
  "Host tpl r = addRegexpMatcher tpl regexpTypeHost r"

definition HandlerFunc :: "HttpHandler \<Rightarrow> Route \<Rightarrow> Route" where
  "HandlerFunc h r = (if err r then r else r\<lparr>handler := Some h\<rparr>)"

fun queriesLoop :: "string list \<Rightarrow> Route \<Rightarrow> Route" where
  "queriesLoop (k # v # pairs) r =
     (let r' = addRegexpMatcher (k @ ''='' @ v) regexpTypeQuery r
      in if err r' then r' else queriesLoop pairs r')"
| "queriesLoop pairs r = r"

definition Queries :: "string list \<Rightarrow> Route \<Rightarrow> Route" where
  "Queries pairs r =
     (if length pairs mod 2 \<noteq> 0 then r\<lparr>err := True\<rparr> else queriesLoop pairs r)"

fun mapFromPairsToRegex :: "string list \<Rightarrow> (string \<times> hregexp) list option" where
  "mapFromPairsToRegex [] = Some []"
| "mapFromPairsToRegex [k] = None"
| "mapFromPairsToRegex (k # v # pairs) =
     (case compileHeaderRegexp v of
        None \<Rightarrow> None
      | Some re \<Rightarrow>
          (case mapFromPairsToRegex pairs of
             None \<Rightarrow> None
           | Some m \<Rightarrow> Some ((k, re) # m)))"

definition HeadersRegexp :: "string list \<Rightarrow> Route \<Rightarrow> Route" where
  "HeadersRegexp pairs r =
     (if err r then r
      else case mapFromPairsToRegex pairs of
             None \<Rightarrow> r\<lparr>err := True\<rparr>
           | Some headers \<Rightarrow> addMatcher (headerRegexMatcher headers) r)"

text \<open>
  A registration \<^verbatim>\<open>r.Methods(m).Path(p).HandlerFunc(h).Queries(q)\<close> on the router
  \<open>r\<close> is written \<open>route r [Methods m, Path p, HandlerFunc h, Queries q]\<close>: a new
  route of \<open>r\<close>, with the calls applied from left to right.
\<close>

definition route :: "Route \<Rightarrow> (Route \<Rightarrow> Route) list \<Rightarrow> Route" where
  "route r calls = fold (\<lambda>call x. call x) calls (NewRoute r)"

subsection \<open>Matching (Route.Match, Router.Match)\<close>

fun matcherMatch :: "matcher \<Rightarrow> Request \<Rightarrow> bool" where
  "matcherMatch (methodMatcher ms) req = (reqMethod req \<in> set ms)"
| "matcherMatch (regexpMatcher rr) req = regexpMatch rr req"
| "matcherMatch (headerRegexMatcher headers) req =
     list_all (\<lambda>(k, re). reqHeader req k \<noteq> [] \<and> list_ex (MatchString re) (reqHeader req k))
       headers"

fun isMethodMatcher :: "matcher \<Rightarrow> bool" where
  "isMethodMatcher (methodMatcher ms) = True"
| "isMethodMatcher m = False"

text \<open>
  The loop of \<^verbatim>\<open>Route.Match\<close> over the matchers: a failing method matcher is
  remembered as \<^verbatim>\<open>ErrMethodMismatch\<close> and the loop goes on; any other failing matcher
  ends it. \<open>None\<close> is the early \<^verbatim>\<open>return false\<close>, \<open>Some e\<close> the end of the loop
  with \<open>e\<close> telling whether the method mismatched.
\<close>

fun matchLoop :: "matcher list \<Rightarrow> Request \<Rightarrow> bool \<Rightarrow> bool option" where
  "matchLoop [] req matchErr = Some matchErr"
| "matchLoop (m # ms) req matchErr =
     (if \<not> matcherMatch m req then
        (if isMethodMatcher m then matchLoop ms req True else None)
      else matchLoop ms req matchErr)"

datatype RouteResult = Matches | MethodMismatch | NoMatch

definition Route_Match :: "Route \<Rightarrow> Request \<Rightarrow> RouteResult" where
  "Route_Match r req =
     (if err r then NoMatch
      else case matchLoop (matchers r) req False of
             None \<Rightarrow> NoMatch
           | Some True \<Rightarrow> MethodMismatch
           | Some False \<Rightarrow> Matches)"

text \<open>
  \<^verbatim>\<open>setMatch\<close>: the variables of the host template, of the path template and of the
  query templates, each read by matching the template again; a later assignment to the
  same name overwrites an earlier one.
\<close>

definition extractVars :: "routeRegexp \<Rightarrow> Request \<Rightarrow> (string \<times> string) list" where
  "extractVars rr req =
     (case regexpSubmatch rr req of None \<Rightarrow> [] | Some caps \<Rightarrow> zip (varsN rr) caps)"

definition optVars :: "routeRegexp option \<Rightarrow> Request \<Rightarrow> (string \<times> string) list" where
  "optVars x req = (case x of None \<Rightarrow> [] | Some rr \<Rightarrow> extractVars rr req)"

definition setMatch :: "Route \<Rightarrow> Request \<Rightarrow> (string \<rightharpoonup> string)" where
  "setMatch r req =
     map_of (rev (optVars (regexp_host r) req @ optVars (regexp_path r) req @
                  concat (map (\<lambda>q. extractVars q req) (regexp_queries r))))"

text \<open>
  \<^verbatim>\<open>Router.Match\<close> tries the routes in order. The routes of the nested sub-routers
  are visited in the order of registration, so the table is kept as the flat list of the
  leaf routes, each carrying its parents' matchers. The flag is
  \<^verbatim>\<open>match.MatchErr == ErrMethodMismatch\<close>: it is set by a route that fails on its
  method alone and stays until a route matches.
\<close>

fun routerLoop :: "Route list \<Rightarrow> Request \<Rightarrow> bool \<Rightarrow> Route option \<times> bool" where
  "routerLoop [] req mismatch = (None, mismatch)"
| "routerLoop (r # rs) req mismatch =
     (case Route_Match r req of
        Matches \<Rightarrow> (Some r, False)
      | MethodMismatch \<Rightarrow> routerLoop rs req True
      | NoMatch \<Rightarrow> routerLoop rs req mismatch)"

record Router =
  routes :: "Route list"
  NotFoundHandler :: "HttpHandler option"

text \<open>
  Modelled from the spec: what becomes of a request that no route accepts is decided
  by the router library (\<^verbatim>\<open>Router.Match\<close> and \<^verbatim>\<open>ServeHTTP\<close> of gorilla/mux),
  which is not among the sources; router.go only sets \<^verbatim>\<open>NotFoundHandler\<close>.
  Sections 4.3, 4.5 and 7 of the spec: a request that matches a rule in everything but
  the method is a MethodNotAllowed candidate and ends as MethodNotAllowed when no rule
  matches it; any other unmatched request goes to the not-found handler (operation not
  supported). This is also what the 1.7 series of the library does.

  The outcome of \<^verbatim>\<open>Router.Match\<close> and of the choice of the handler in
  \<^verbatim>\<open>ServeHTTP\<close>: the selected route with its variables; the library's own 405 handler
  when a route failed on the method alone and nothing matched (no
  \<^verbatim>\<open>MethodNotAllowedHandler\<close> is configured); otherwise the configured
  \<^verbatim>\<open>NotFoundHandler\<close>, or the standard 404 handler when there is none.
\<close>

datatype Outcome =
    Selected Route "string \<rightharpoonup> string"
  | MethodNotAllowed
  | NotFound HttpHandler
  | StandardNotFound

definition Match :: "Router \<Rightarrow> Request \<Rightarrow> Outcome" where
  "Match router req =
     (case routerLoop (routes router) req False of
        (Some r, e) \<Rightarrow> Selected r (setMatch r req)
      | (None, True) \<Rightarrow> MethodNotAllowed
      | (None, False) \<Rightarrow>
          (case NotFoundHandler router of
             Some h \<Rightarrow> NotFound h
           | None \<Rightarrow> StandardNotFound))"

subsection \<open>The table: registerApiRouters\<close>

record ObjectNode =
  domains :: "string list"

text \<open>
  The bucket routers, in the order in which they are appended: for each configured
  domain the router of the hosts \<^verbatim>\<open>{bucket:.+}.d\<close> and the router of the hosts
  \<^verbatim>\<open>{bucket:.+}.d:{port:[0-9]+}\<close>, and last the router of the paths under
  \<^verbatim>\<open>/{bucket}\<close>.
\<close>

definition bRouter :: Route where
  "bRouter = Subrouter (route NewRouter [PathPrefix ''/''])"

definition bucketRouters :: "ObjectNode \<Rightarrow> Route list" where
  "bucketRouters node =
     concat (map (\<lambda>d. [Subrouter (route bRouter [Host (''{bucket:.+}.'' @ d)]),
                       Subrouter (route bRouter
                         [Host (''{bucket:.+}.'' @ d @ '':{port:[0-9]+}'')])])
               (domains node))
     @ [Subrouter (route bRouter [PathPrefix ''/{bucket}''])]"

definition registerBucketHttpHeadRouters :: "Route \<Rightarrow> Route list" where
  "registerBucketHttpHeadRouters r =
   [ \<comment> \<open>Head object\<close>
     route r [Methods [MethodHead], Path ''/{object:.+}'',
              HandlerFunc (policyCheck headObjectHandler [GetObjectAction])],
     \<comment> \<open>Head bucket\<close>
     route r [Methods [MethodHead],
              HandlerFunc (policyCheck headBucketHandler [ListBucketAction])] ]"

definition registerBucketHttpGetRouters :: "Route \<Rightarrow> Route list" where
  "registerBucketHttpGetRouters r =
   [ \<comment> \<open>Get object with pre-signed auth signature v2\<close>
     route r [Methods [MethodGet], Path ''/{object:.+}'',
              HandlerFunc (policyCheck getObjectHandler [ListBucketAction]),
              Queries [''AWSAccessKeyId'', ''{accessKey:.+}'',
                       ''Expires'', ''{expires:[0-9]+}'', ''Signature'', ''{signature:.+}'']],
     \<comment> \<open>Get object with pre-signed auth signature v4\<close>
     route r [Methods [MethodGet], Path ''/{object:.+}'',
              HandlerFunc (policyCheck getObjectHandler [ListBucketAction]),
              Queries [''X-Amz-Credential'', ''{creadential:.+}'',
                       ''X-Amz-Algorithm'', ''{algorithm:.+}'',
                       ''X-Amz-Signature'', ''{signature:.+}'',
                       ''X-Amz-Date'', ''{date:.+}'',
                       ''X-Amz-SignedHeaders'', ''{signedHeaders:.+}'',
                       ''X-Amz-Expires'', ''{expires:[0-9]+}'']],
     \<comment> \<open>Get object tagging\<close>
     route r [Methods [MethodGet], Path ''/{object:.+}'',
              HandlerFunc (policyCheck getObjectTagging [GetBucketPolicyAction]),
              Queries [''tagging'', '''']],
     \<comment> \<open>Get object XAttr\<close>
     route r [Methods [MethodGet], Path ''/{object:.+}'',
              HandlerFunc (bare getObjectXAttr),
              Queries [''xattr'', '''', ''key'', ''{key:.+}'']],
     \<comment> \<open>List object XAttrs\<close>
     route r [Methods [MethodGet], Path ''/{object:.+}'',
              HandlerFunc (bare listObjectXAttrs),
              Queries [''xattr'', '''']],
     \<comment> \<open>Get object acl\<close>
     route r [Methods [MethodGet], Path ''/{objject:.+}'',
              HandlerFunc (policyCheck getObjectACLHandler [GetObjectAclAction]),
              Queries [''acl'', '''']],
     \<comment> \<open>Get object\<close>
     route r [Methods [MethodGet], Path ''/{object:.+}'',
              HandlerFunc (policyCheck getObjectHandler [GetObjectAction])],
     \<comment> \<open>List objects version 2\<close>
     route r [Methods [MethodGet],
              HandlerFunc (policyCheck getBucketV2Handler [ListBucketAction]),
              Queries [''list-type'', ''2'']],
     \<comment> \<open>List multipart uploads\<close>
     route r [Methods [MethodGet],
              HandlerFunc (policyCheck listMultipartUploadsHandler
                             [ListMultipartUploadPartsAction]),
              Queries [''uploads'', '''']],
     \<comment> \<open>List parts\<close>
     route r [Methods [MethodGet],
              HandlerFunc (policyCheck listPartsHandler [ListMultipartUploadPartsAction]),
              Queries [''uploadId'', ''{uploadId:.*}'']],
     \<comment> \<open>Get bucket location\<close>
     route r [Methods [MethodGet],
              HandlerFunc (policyCheck getBucketLocation [GetBucketLocationAction]),
              Queries [''location'', '''']],
     \<comment> \<open>Get bucket policy\<close>
     route r [Methods [MethodGet],
              HandlerFunc (policyCheck getBucketPolicyHandler [GetBucketPolicyAction]),
              Queries [''policy'', '''']],
     \<comment> \<open>Get bucket acl\<close>
     route r [Methods [MethodGet],
              HandlerFunc (policyCheck getBucketACLHandler [GetBucketAclAction]),
              Queries [''acl'', '''']],
     \<comment> \<open>List objects version 1\<close>
     route r [Methods [MethodGet],
              HandlerFunc (policyCheck getBucketV1Handler [ListBucketAction])] ]"

definition registerBucketHttpPostRouters :: "Route \<Rightarrow> Route list" where
  "registerBucketHttpPostRouters r =
   [ \<comment> \<open>Create multipart upload\<close>
     route r [Methods [MethodPost], Path ''/{object:.+}'',
              HandlerFunc (policyCheck createMultipleUploadHandler [PutObjectAction]),
              Queries [''uploads'', '''']],
     \<comment> \<open>Complete multipart\<close>
     route r [Methods [MethodPost], Path ''/{object:.+}'',
              HandlerFunc (policyCheck completeMultipartUploadHandler [PutObjectAction]),
              Queries [''uploadId'', ''{uploadId:.*}'']],
     \<comment> \<open>Delete objects (multiple objects)\<close>
     route r [Methods [MethodPost],
              HandlerFunc (policyCheck deleteObjectsHandler [DeleteObjectAction]),
              Queries [''delete'', '''']] ]"

definition registerBucketHttpPutRouters :: "Route \<Rightarrow> Route list" where
  "registerBucketHttpPutRouters r =
   [ \<comment> \<open>Upload part\<close>
     route r [Methods [MethodPut], Path ''/{object:.+}'',
              HandlerFunc (policyCheck uploadPartHandler [PutObjectAction]),
              Queries [''partNumber'', ''{partNumber:[0-9]+}'',
                       ''uploadId'', ''{uploadId:.*}'']],
     \<comment> \<open>Copy object\<close>
     route r [Methods [MethodPut], Path ''/{object:.+}'',
              HeadersRegexp [HeaderNameCopySource, copySourcePattern],
              HandlerFunc (policyCheck copyObjectHandler [PutObjectAction])],
     \<comment> \<open>Put object tagging\<close>
     route r [Methods [MethodPut], Path ''/{object:.+}'',
              HandlerFunc (policyCheck putObjectTagging [PutBucketPolicyAction]),
              Queries [''tagging'', '''']],
     \<comment> \<open>Put object xattrs\<close>
     route r [Methods [MethodPut], Path ''/{object:.+}'',
              HandlerFunc (bare putObjectXAttr),
              Queries [''xattr'', '''']],
     \<comment> \<open>Put object acl\<close>
     route r [Methods [MethodPut], Path ''/{object:.+}'',
              HandlerFunc (policyCheck putObjectACLHandler [PutObjectAclAction]),
              Queries [''acl'', '''']],
     \<comment> \<open>Put object\<close>
     route r [Methods [MethodPut], Path ''/{object:.+}'',
              HandlerFunc (policyCheck putObjectHandler [PutObjectAction])],
     \<comment> \<open>Put bucket acl\<close>
     route r [Methods [MethodPut],
              HandlerFunc (policyCheck putBucketACLHandler [PutBucketAclAction]),
              Queries [''acl'', '''']],
     \<comment> \<open>Put bucket policy\<close>
     route r [Methods [MethodPut],
              HandlerFunc (policyCheck putBucketPolicyHandler [PutBucketPolicyAction]),
              Queries [''policy'', '''']] ]"

text \<open>
  The template of the delete-object-tagging route is written without its closing brace
  and the delete-object-xattrs route gives \<^verbatim>\<open>Queries\<close> three arguments, as in the
  source.
\<close>

definition registerBucketHttpDeleteRouters :: "Route \<Rightarrow> Route list" where
  "registerBucketHttpDeleteRouters r =
   [ \<comment> \<open>Abort multipart\<close>
     route r [Methods [MethodDelete], Path ''/{object:.+}'',
              HandlerFunc (policyCheck abortMultipartUploadHandler
                             [AbortMultipartUploadAction]),
              Queries [''uploadId'', ''{uploadId:.*}'']],
     \<comment> \<open>Delete object tagging\<close>
     route r [Methods [MethodDelete], Path ''/{object:.+'',
              HandlerFunc (policyCheck deleteObjectTagging [PutBucketPolicyAction]),
              Queries [''tagging'', '''']],
     \<comment> \<open>Delete object xattrs\<close>
     route r [Methods [MethodDelete], Path ''/{object:.+}'',
              HandlerFunc (bare deleteObjectXAttr),
              Queries [''xattr'', ''key'', ''{key:.+}}'']],
     \<comment> \<open>Delete object\<close>
     route r [Methods [MethodDelete], Path ''/{object:.+}'',
              HandlerFunc (policyCheck deleteObjectHandler [DeleteObjectAction])],
     \<comment> \<open>Delete bucket policy\<close>
     route r [Methods [MethodDelete],
              HandlerFunc (policyCheck deleteBucketPolicyHandler
                             [DeleteBucketPolicyAction]),
              Queries [''policy'', '''']] ]"

text \<open>The body of the loop over the bucket routers.\<close>

definition registerBucketRouters :: "Route \<Rightarrow> Route list" where
  "registerBucketRouters r =
     registerBucketHttpHeadRouters r @ registerBucketHttpGetRouters r @
     registerBucketHttpPostRouters r @ registerBucketHttpPutRouters r @
     registerBucketHttpDeleteRouters r"

text \<open>List buckets, registered on the root router after the bucket routers.\<close>

definition listBucketsRoute :: Route where
  "listBucketsRoute =
     route NewRouter [Methods [MethodGet],
                      HandlerFunc (policyCheck listBucketsHandler [ListBucketAction])]"

definition registerApiRouters :: "ObjectNode \<Rightarrow> Router" where
  "registerApiRouters node =
     \<lparr>routes = concat (map registerBucketRouters (bucketRouters node)) @ [listBucketsRoute],
      NotFoundHandler = Some (bare unsupportedOperationHandler)\<rparr>"

subsection \<open>What a selected route serves\<close>

definition selectedHandler :: "Outcome \<Rightarrow> HttpHandler option" where
  "selectedHandler out = (case out of Selected r vars \<Rightarrow> handler r | _ \<Rightarrow> None)"

definition selectedVars :: "Outcome \<Rightarrow> (string \<rightharpoonup> string)" where
  "selectedVars out = (case out of Selected r vars \<Rightarrow> vars | _ \<Rightarrow> Map.empty)"


text \<open>
  Modelled from the spec: the body of \<^verbatim>\<open>policyCheck\<close>, the authorization gate, is in
  another file of the package; router.go only calls it. Section 4.4 of the spec: the
  credentials are extracted first and a failure ends the request with an authentication
  error; then the policy evaluator is asked about the resource (the bucket and the
  object of the request) and the required actions; the handler runs only when all of
  them are granted, and a denial, a partial grant or an error of the evaluator end the
  request with AccessDenied. The credential extractor and the evaluator are the
  collaborators of section 6.
\<close>

datatype Verdict = Granted | Refused | EvaluationError








subsection \<open>Properties of requests\<close>

text \<open>
  A configured domain is put into a host template as it is; a domain name has no
  braces, and with braces it would be read as template variables.
\<close>

definition validDomain :: "string \<Rightarrow> bool" where
  "validDomain d = (CHR ''{'' \<notin> set d \<and> CHR ''}'' \<notin> set d)"

definition validDomains :: "ObjectNode \<Rightarrow> bool" where
  "validDomains node = list_all validDomain (domains node)"

text \<open>
  The first value of the query key \<open>k\<close> exists, is made of characters of the class
  \<open>c\<close> and has at least \<open>m\<close> of them: what a query template
  \<^verbatim>\<open>k={name:pattern}\<close> asks, and (with any character but the newline, and no minimal
  length) what \<^verbatim>\<open>Queries(k, "")\<close> asks.
\<close>

definition queryMatches :: "Request \<Rightarrow> string \<Rightarrow> cclass \<Rightarrow> nat \<Rightarrow> bool" where
  "queryMatches req k c m =
     (case reqQuery req k of
        [] \<Rightarrow> False
      | v # vs \<Rightarrow> list_all (inClass c) v \<and> m \<le> length v)"

definition queryEquals :: "Request \<Rightarrow> string \<Rightarrow> string \<Rightarrow> bool" where
  "queryEquals req k x = (case reqQuery req k of [] \<Rightarrow> False | v # vs \<Rightarrow> v = x)"

definition presignedV2 :: "Request \<Rightarrow> bool" where
  "presignedV2 req =
     (queryMatches req ''AWSAccessKeyId'' AnyChar 1 \<and> queryMatches req ''Expires'' Digit 1 \<and>
      queryMatches req ''Signature'' AnyChar 1)"

definition presignedV4 :: "Request \<Rightarrow> bool" where
  "presignedV4 req =
     (queryMatches req ''X-Amz-Credential'' AnyChar 1 \<and>
      queryMatches req ''X-Amz-Algorithm'' AnyChar 1 \<and>
      queryMatches req ''X-Amz-Signature'' AnyChar 1 \<and>
      queryMatches req ''X-Amz-Date'' AnyChar 1 \<and>
      queryMatches req ''X-Amz-SignedHeaders'' AnyChar 1 \<and>
      queryMatches req ''X-Amz-Expires'' Digit 1)"

text \<open>Some value of the copy-source header contains \<^verbatim>\<open>/\<close> or \<^verbatim>\<open>%2F\<close>.\<close>

definition copySource :: "Request \<Rightarrow> bool" where
  "copySource req =
     list_ex (\<lambda>v. contains v ''/'' \<or> contains v ''%2F'') (reqHeader req HeaderNameCopySource)"

text \<open>
  The bucket router that takes a request is the first one whose own matchers (the host
  template or the path prefix) accept it. The request is at the object level when, for
  that router, the path template \<^verbatim>\<open>/{object:.+}\<close> accepts its path.
\<close>

definition resolve :: "ObjectNode \<Rightarrow> Request \<Rightarrow> Route option" where
  "resolve node req = find (\<lambda>c. Route_Match c req = Matches) (bucketRouters node)"

definition objectLevel :: "Route \<Rightarrow> Request \<Rightarrow> bool" where
  "objectLevel c req = (Route_Match (route c [Path ''/{object:.+}'']) req = Matches)"

definition objectRequest :: "ObjectNode \<Rightarrow> Request \<Rightarrow> bool" where
  "objectRequest node req =
     (case resolve node req of None \<Rightarrow> False | Some c \<Rightarrow> objectLevel c req)"

text \<open>
  The shape of a route is its host and path templates; a request has the shape when
  those accept it, whatever its method, query and headers. The method of a route
  accepts a request when its method matchers do.
\<close>

fun shapeMatcher :: "matcher \<Rightarrow> bool" where
  "shapeMatcher (regexpMatcher rr) = (regexpType rr \<noteq> regexpTypeQuery)"
| "shapeMatcher m = False"

definition hasShape :: "Route \<Rightarrow> Request \<Rightarrow> bool" where
  "hasShape r req =
     (\<not> err r \<and> list_all (\<lambda>m. shapeMatcher m \<longrightarrow> matcherMatch m req) (matchers r))"

definition methodAccepts :: "Route \<Rightarrow> Request \<Rightarrow> bool" where
  "methodAccepts r req =
     list_all (\<lambda>m. isMethodMatcher m \<longrightarrow> matcherMatch m req) (matchers r)"

subsection \<open>Auxiliary notions for the statements\<close>

text \<open>A request without query parameters, or without headers.\<close>

definition noValues :: "string \<Rightarrow> string list" where
  "noValues k = []"


text \<open>
  A handler is gated when it is registered through \<^verbatim>\<open>policyCheck\<close> with one required
  action. The handlers of the extended-attribute routes are registered as they are.
\<close>

definition gated :: "HttpHandler \<Rightarrow> bool" where
  "gated h = (\<exists>f a. h = policyCheck f [a])"

definition xattrHandlers :: "HttpHandler set" where
  "xattrHandlers =
     {bare getObjectXAttr, bare listObjectXAttrs, bare putObjectXAttr, bare deleteObjectXAttr}"

subsection \<open>The compiled bucket routers and the decision list of their rules\<close>

text \<open>
  The compiled templates of the bucket routers: the prefix \<^verbatim>\<open>/\<close> of the router they
  are created on, the prefix \<^verbatim>\<open>/{bucket}\<close>, and the two host templates of a domain.
\<close>

definition rootRR :: routeRegexp where
  "rootRR = \<lparr>template = ''/'', regexpType = regexpTypePrefix, regexp = [Lit ''/''],
              varsN = []\<rparr>"

definition bucketRR :: routeRegexp where
  "bucketRR = \<lparr>template = ''/{bucket}'', regexpType = regexpTypePrefix,
                regexp = [Lit ''/'', Rep NotSlash 1, Lit []], varsN = [''bucket'']\<rparr>"

definition hostRegexp1 :: "string \<Rightarrow> routeRegexp" where
  "hostRegexp1 d = \<lparr>template = ''{bucket:.+}.'' @ d, regexpType = regexpTypeHost,
                     regexp = [Lit [], Rep AnyChar 1, Lit (''.'' @ d)],
                     varsN = [''bucket'']\<rparr>"

definition hostRegexp2 :: "string \<Rightarrow> routeRegexp" where
  "hostRegexp2 d = \<lparr>template = ''{bucket:.+}.'' @ d @ '':{port:[0-9]+}'',
                     regexpType = regexpTypeHost,
                     regexp = [Lit [], Rep AnyChar 1, Lit (''.'' @ d @ '':''), Rep Digit 1, Lit []],
                     varsN = [''bucket'', ''port'']\<rparr>"

definition hostConf :: "routeRegexp \<Rightarrow> Route" where
  "hostConf rr = \<lparr>matchers = [regexpMatcher rootRR, regexpMatcher rr], regexp_host = Some rr,
     regexp_path = Some rootRR, regexp_queries = [], handler = None, err = False\<rparr>"

definition pathConf :: Route where
  "pathConf = \<lparr>matchers = [regexpMatcher rootRR, regexpMatcher bucketRR], regexp_host = None,
     regexp_path = Some bucketRR, regexp_queries = [], handler = None, err = False\<rparr>"

text \<open>The path of the request is accepted by a compiled path template.\<close>

definition pathAccepts :: "seg list \<Rightarrow> Request \<Rightarrow> bool" where
  "pathAccepts g req = (FindSubmatch g True (reqPath req) \<noteq> None)"

text \<open>
  The object path template of a bucket router: \<^verbatim>\<open>/{object:.+}\<close> under a host
  router and \<^verbatim>\<open>/{bucket}/{object:.+}\<close> under the path-style router.
\<close>

definition objectSegs :: "Route \<Rightarrow> seg list" where
  "objectSegs c =
     (if regexp_host c = None
      then [Lit ''/'', Rep NotSlash 1, Lit ''/'', Rep AnyChar 1, Lit []]
      else [Lit ''/'', Rep AnyChar 1, Lit []])"

text \<open>
  The rules of one bucket router as a decision list, in the order of registration: for
  each rule the condition under which it accepts a request, and its handler. \<open>acc\<close>
  says that the bucket router itself accepts the request, \<open>obj\<close> that the path is an
  object path of that router. The two rules whose construction fails accept nothing.
\<close>

definition decisionList :: "bool \<Rightarrow> bool \<Rightarrow> Request \<Rightarrow> (bool \<times> HttpHandler option) list" where
  "decisionList acc obj req =
   [ (acc \<and> reqMethod req = ''HEAD'' \<and> obj,
        Some (policyCheck headObjectHandler [GetObjectAction])),
     (acc \<and> reqMethod req = ''HEAD'',
        Some (policyCheck headBucketHandler [ListBucketAction])),
     (acc \<and> reqMethod req = ''GET'' \<and> obj \<and> presignedV2 req,
        Some (policyCheck getObjectHandler [ListBucketAction])),
     (acc \<and> reqMethod req = ''GET'' \<and> obj \<and> presignedV4 req,
        Some (policyCheck getObjectHandler [ListBucketAction])),
     (acc \<and> reqMethod req = ''GET'' \<and> obj \<and> queryMatches req ''tagging'' AnyChar 0,
        Some (policyCheck getObjectTagging [GetBucketPolicyAction])),
     (acc \<and> reqMethod req = ''GET'' \<and> obj \<and> queryMatches req ''xattr'' AnyChar 0 \<and>
        queryMatches req ''key'' AnyChar 1,
        Some (bare getObjectXAttr)),
     (acc \<and> reqMethod req = ''GET'' \<and> obj \<and> queryMatches req ''xattr'' AnyChar 0,
        Some (bare listObjectXAttrs)),
     (acc \<and> reqMethod req = ''GET'' \<and> obj \<and> queryMatches req ''acl'' AnyChar 0,
        Some (policyCheck getObjectACLHandler [GetObjectAclAction])),
     (acc \<and> reqMethod req = ''GET'' \<and> obj,
        Some (policyCheck getObjectHandler [GetObjectAction])),
     (acc \<and> reqMethod req = ''GET'' \<and> queryEquals req ''list-type'' ''2'',
        Some (policyCheck getBucketV2Handler [ListBucketAction])),
     (acc \<and> reqMethod req = ''GET'' \<and> queryMatches req ''uploads'' AnyChar 0,
        Some (policyCheck listMultipartUploadsHandler [ListMultipartUploadPartsAction])),
     (acc \<and> reqMethod req = ''GET'' \<and> queryMatches req ''uploadId'' AnyChar 0,
        Some (policyCheck listPartsHandler [ListMultipartUploadPartsAction])),
     (acc \<and> reqMethod req = ''GET'' \<and> queryMatches req ''location'' AnyChar 0,
        Some (policyCheck getBucketLocation [GetBucketLocationAction])),
     (acc \<and> reqMethod req = ''GET'' \<and> queryMatches req ''policy'' AnyChar 0,
        Some (policyCheck getBucketPolicyHandler [GetBucketPolicyAction])),
     (acc \<and> reqMethod req = ''GET'' \<and> queryMatches req ''acl'' AnyChar 0,
        Some (policyCheck getBucketACLHandler [GetBucketAclAction])),
     (acc \<and> reqMethod req = ''GET'',
        Some (policyCheck getBucketV1Handler [ListBucketAction])),
     (acc \<and> reqMethod req = ''POST'' \<and> obj \<and> queryMatches req ''uploads'' AnyChar 0,
        Some (policyCheck createMultipleUploadHandler [PutObjectAction])),
     (acc \<and> reqMethod req = ''POST'' \<and> obj \<and> queryMatches req ''uploadId'' AnyChar 0,
        Some (policyCheck completeMultipartUploadHandler [PutObjectAction])),
     (acc \<and> reqMethod req = ''POST'' \<and> queryMatches req ''delete'' AnyChar 0,
        Some (policyCheck deleteObjectsHandler [DeleteObjectAction])),
     (acc \<and> reqMethod req = ''PUT'' \<and> obj \<and> queryMatches req ''partNumber'' Digit 1 \<and>
        queryMatches req ''uploadId'' AnyChar 0,
        Some (policyCheck uploadPartHandler [PutObjectAction])),
     (acc \<and> reqMethod req = ''PUT'' \<and> obj \<and> copySource req,
        Some (policyCheck copyObjectHandler [PutObjectAction])),
     (acc \<and> reqMethod req = ''PUT'' \<and> obj \<and> queryMatches req ''tagging'' AnyChar 0,
        Some (policyCheck putObjectTagging [PutBucketPolicyAction])),
     (acc \<and> reqMethod req = ''PUT'' \<and> obj \<and> queryMatches req ''xattr'' AnyChar 0,
        Some (bare putObjectXAttr)),
     (acc \<and> reqMethod req = ''PUT'' \<and> obj \<and> queryMatches req ''acl'' AnyChar 0,
        Some (policyCheck putObjectACLHandler [PutObjectAclAction])),
     (acc \<and> reqMethod req = ''PUT'' \<and> obj,
        Some (policyCheck putObjectHandler [PutObjectAction])),
     (acc \<and> reqMethod req = ''PUT'' \<and> queryMatches req ''acl'' AnyChar 0,
        Some (policyCheck putBucketACLHandler [PutBucketAclAction])),
     (acc \<and> reqMethod req = ''PUT'' \<and> queryMatches req ''policy'' AnyChar 0,
        Some (policyCheck putBucketPolicyHandler [PutBucketPolicyAction])),
     (acc \<and> reqMethod req = ''DELETE'' \<and> obj \<and> queryMatches req ''uploadId'' AnyChar 0,
        Some (policyCheck abortMultipartUploadHandler [AbortMultipartUploadAction])),
     (False, None),
     (False, Some (bare deleteObjectXAttr)),
     (acc \<and> reqMethod req = ''DELETE'' \<and> obj,
        Some (policyCheck deleteObjectHandler [DeleteObjectAction])),
     (acc \<and> reqMethod req = ''DELETE'' \<and> queryMatches req ''policy'' AnyChar 0,
        Some (policyCheck deleteBucketPolicyHandler [DeleteBucketPolicyAction])) ]"

section \<open>Lemmas on matching\<close>

lemma matchLoop_Some_False:
  "matchLoop ms req e = Some False \<longleftrightarrow> \<not> e \<and> list_all (\<lambda>m. matcherMatch m req) ms"
  by (induction ms arbitrary: e) auto

lemma matchLoop_result:
  "matchLoop ms req e =
     (if list_ex (\<lambda>m. \<not> matcherMatch m req \<and> \<not> isMethodMatcher m) ms then None
      else Some (e \<or> list_ex (\<lambda>m. \<not> matcherMatch m req) ms))"
  by (induction ms arbitrary: e) auto

lemma Route_Match_Matches:
  "Route_Match r req = Matches \<longleftrightarrow> \<not> err r \<and> list_all (\<lambda>m. matcherMatch m req) (matchers r)"
  by (auto simp: Route_Match_def matchLoop_result list_all_iff list_ex_iff split: option.splits bool.splits)

lemma matchLoop_Some_True:
  "matchLoop ms req e = Some True \<longleftrightarrow>
     list_all (\<lambda>m. isMethodMatcher m \<or> matcherMatch m req) ms \<and>
     (e \<or> list_ex (\<lambda>m. \<not> matcherMatch m req) ms)"
  by (induction ms arbitrary: e) auto

lemma Route_Match_MethodMismatch:
  "Route_Match r req = MethodMismatch \<longleftrightarrow>
     \<not> err r \<and> list_all (\<lambda>m. isMethodMatcher m \<or> matcherMatch m req) (matchers r) \<and>
     list_ex (\<lambda>m. \<not> matcherMatch m req) (matchers r)"
  by (auto simp: Route_Match_def matchLoop_result list_all_iff list_ex_iff split: option.splits bool.splits)

lemma routerLoop_eq:
  "routerLoop rs req e =
     (case find (\<lambda>r. Route_Match r req = Matches) rs of
        Some r \<Rightarrow> (Some r, False)
      | None \<Rightarrow> (None, e \<or> list_ex (\<lambda>r. Route_Match r req = MethodMismatch) rs))"
  by (induction rs arbitrary: e) (auto split: RouteResult.splits option.splits)

lemma Match_eq:
  "Match router req =
     (case find (\<lambda>r. Route_Match r req = Matches) (routes router) of
        Some r \<Rightarrow> Selected r (setMatch r req)
      | None \<Rightarrow>
          if list_ex (\<lambda>r. Route_Match r req = MethodMismatch) (routes router)
          then MethodNotAllowed
          else (case NotFoundHandler router of Some h \<Rightarrow> NotFound h | None \<Rightarrow> StandardNotFound))"
  unfolding Match_def routerLoop_eq by (simp split: option.split)

lemma Match_Selected:
  "Match router req = Selected r vars \<longleftrightarrow>
     find (\<lambda>r. Route_Match r req = Matches) (routes router) = Some r \<and> vars = setMatch r req"
  unfolding Match_eq by (auto split: option.splits)

lemma selectedHandler_Match:
  "selectedHandler (Match router req) =
     (case find (\<lambda>r. Route_Match r req = Matches) (routes router) of
        None \<Rightarrow> None | Some r \<Rightarrow> handler r)"
  unfolding Match_eq selectedHandler_def by (simp split: option.split)

lemma find_Some_D: "find P xs = Some x \<Longrightarrow> x \<in> set xs \<and> P x"
  by (auto simp: find_Some_iff)

lemma find_None_D: "find P xs = None \<Longrightarrow> x \<in> set xs \<Longrightarrow> \<not> P x"
  by (auto simp: find_None_iff)

section \<open>Lemmas on the construction of routes\<close>

lemma addMatcher_fields [simp]:
  "handler (addMatcher m r) = handler r" "err (addMatcher m r) = err r"
  "regexp_host (addMatcher m r) = regexp_host r" "regexp_path (addMatcher m r) = regexp_path r"
  "regexp_queries (addMatcher m r) = regexp_queries r"
  "matchers (addMatcher m r) = (if err r then matchers r else matchers r @ [m])"
  by (simp_all add: addMatcher_def)

lemma storeRegexp_fields [simp]:
  "handler (storeRegexp rr typ r) = handler r" "err (storeRegexp rr typ r) = err r"
  "matchers (storeRegexp rr typ r) = matchers r"
  by (simp_all add: storeRegexp_def)

lemma Methods_fields [simp]:
  "err (Methods ms r) = err r" "handler (Methods ms r) = handler r"
  "regexp_host (Methods ms r) = regexp_host r" "regexp_path (Methods ms r) = regexp_path r"
  "regexp_queries (Methods ms r) = regexp_queries r"
  "matchers (Methods ms r) = (if err r then matchers r else matchers r @ [methodMatcher ms])"
  by (simp_all add: Methods_def)

lemma HandlerFunc_fields [simp]:
  "err (HandlerFunc h r) = err r" "handler (HandlerFunc h r) = (if err r then handler r else Some h)"
  "regexp_host (HandlerFunc h r) = regexp_host r" "regexp_path (HandlerFunc h r) = regexp_path r"
  "regexp_queries (HandlerFunc h r) = regexp_queries r" "matchers (HandlerFunc h r) = matchers r"
  by (simp_all add: HandlerFunc_def)

lemma addRegexpMatcher_handler [simp]: "handler (addRegexpMatcher t ty r) = handler r"
  unfolding addRegexpMatcher_def by (simp split: option.split)

lemma addRegexpMatcher_err_mono: "err r \<Longrightarrow> err (addRegexpMatcher t ty r)"
  unfolding addRegexpMatcher_def by simp

lemma queriesLoop_handler [simp]: "handler (queriesLoop ps r) = handler r"
  by (induction ps r rule: queriesLoop.induct) (simp_all add: Let_def)

lemma queriesLoop_err_mono: "err r \<Longrightarrow> err (queriesLoop ps r)"
  by (induction ps r rule: queriesLoop.induct) (simp_all add: Let_def addRegexpMatcher_err_mono)

lemma Queries_handler [simp]: "handler (Queries ps r) = handler r"
  by (simp add: Queries_def)

lemma Queries_err_mono: "err r \<Longrightarrow> err (Queries ps r)"
  by (simp add: Queries_def queriesLoop_err_mono)

lemma Path_handler [simp]: "handler (Path t r) = handler r"
  by (simp add: Path_def)

lemma Path_err_mono: "err r \<Longrightarrow> err (Path t r)"
  by (simp add: Path_def addRegexpMatcher_err_mono)

lemma HeadersRegexp_handler [simp]: "handler (HeadersRegexp ps r) = handler r"
  by (simp add: HeadersRegexp_def split: option.split)

lemma HeadersRegexp_err_mono: "err r \<Longrightarrow> err (HeadersRegexp ps r)"
  by (simp add: HeadersRegexp_def)

lemma NewRoute_handler [simp]: "handler (NewRoute c) = None"
  by (simp add: NewRoute_def)

text \<open>The template without its closing brace is rejected whatever precedes it.\<close>

lemma braceLoop_unclosed:
  "braceLoop (xs @ ''/{object:.+'') i l idx idxs = None"
  by (induction xs arbitrary: i l idx idxs) auto

lemma newRouteRegexp_unclosed: "newRouteRegexp (xs @ ''/{object:.+'') ty = None"
  by (simp add: newRouteRegexp_def braceIndices_def braceLoop_unclosed)

lemma fullTemplate_Path:
  "\<exists>xs. fullTemplate tpl regexpTypePath r = xs @ tpl"
  by (cases "regexp_path r") (simp_all add: fullTemplate_def isPathType_def)

lemma Path_unclosed_err: "err (Path ''/{object:.+'' r)"
proof -
  obtain xs where "fullTemplate ''/{object:.+'' regexpTypePath r = xs @ ''/{object:.+''"
    using fullTemplate_Path by blast
  then have "newRouteRegexp (fullTemplate ''/{object:.+'' regexpTypePath r) regexpTypePath = None"
    by (simp only: newRouteRegexp_unclosed)
  then show ?thesis
    unfolding Path_def addRegexpMatcher_def by simp
qed

lemma Queries_odd_err: "err (Queries [a, b, c] r)"
  by (simp add: Queries_def)

lemma Queries_err_D: "\<not> err (Queries ps r) \<Longrightarrow> \<not> err r"
  using Queries_err_mono by blast

lemma live_handler_HQ:
  "\<not> err (Queries ps (HandlerFunc h r)) \<Longrightarrow> handler (Queries ps (HandlerFunc h r)) = Some h"
  by (auto dest: Queries_err_D)

lemma live_handler_H:
  "\<not> err (HandlerFunc h r) \<Longrightarrow> handler (HandlerFunc h r) = Some h"
  by simp

lemma gatedI [simp]: "gated (policyCheck f [a])" by (auto simp: gated_def)

lemma head_handlers:
  "r \<in> set (registerBucketHttpHeadRouters c) \<Longrightarrow> \<not> err r \<Longrightarrow> \<exists>h. handler r = Some h \<and> (gated h \<or> h \<in> xattrHandlers)"
  unfolding registerBucketHttpHeadRouters_def route_def
  by (auto simp: live_handler_HQ live_handler_H xattrHandlers_def simp del: HandlerFunc_fields Queries_handler)

lemma get_handlers:
  "r \<in> set (registerBucketHttpGetRouters c) \<Longrightarrow> \<not> err r \<Longrightarrow> \<exists>h. handler r = Some h \<and> (gated h \<or> h \<in> xattrHandlers)"
  unfolding registerBucketHttpGetRouters_def route_def
  by (auto simp: live_handler_HQ live_handler_H xattrHandlers_def simp del: HandlerFunc_fields Queries_handler)

lemma post_handlers:
  "r \<in> set (registerBucketHttpPostRouters c) \<Longrightarrow> \<not> err r \<Longrightarrow> \<exists>h. handler r = Some h \<and> (gated h \<or> h \<in> xattrHandlers)"
  unfolding registerBucketHttpPostRouters_def route_def
  by (auto simp: live_handler_HQ live_handler_H xattrHandlers_def simp del: HandlerFunc_fields Queries_handler)

lemma put_handlers:
  "r \<in> set (registerBucketHttpPutRouters c) \<Longrightarrow> \<not> err r \<Longrightarrow> \<exists>h. handler r = Some h \<and> (gated h \<or> h \<in> xattrHandlers)"
  unfolding registerBucketHttpPutRouters_def route_def
  by (auto simp: live_handler_HQ live_handler_H xattrHandlers_def simp del: HandlerFunc_fields Queries_handler)

lemma delete_handlers:
  "r \<in> set (registerBucketHttpDeleteRouters c) \<Longrightarrow> \<not> err r \<Longrightarrow> \<exists>h. handler r = Some h \<and> (gated h \<or> h \<in> xattrHandlers)"
  unfolding registerBucketHttpDeleteRouters_def route_def
  by (auto simp: live_handler_HQ live_handler_H xattrHandlers_def simp del: HandlerFunc_fields Queries_handler)

lemma bucket_handlers:
  "r \<in> set (registerBucketRouters c) \<Longrightarrow> \<not> err r \<Longrightarrow>
     \<exists>h. handler r = Some h \<and> (gated h \<or> h \<in> xattrHandlers)"
  unfolding registerBucketRouters_def
  using head_handlers get_handlers post_handlers put_handlers delete_handlers
  by (simp only: set_append Un_iff) blast

lemma listBucketsRoute_eq:
  "listBucketsRoute = \<lparr>matchers = [methodMatcher [''GET'']], regexp_host = None, regexp_path = None,
     regexp_queries = [], handler = Some (policyCheck listBucketsHandler [ListBucketAction]),
     err = False\<rparr>"
  by (simp add: listBucketsRoute_def route_def NewRoute_def NewRouter_def Methods_def
        addMatcher_def HandlerFunc_def MethodGet_def)

lemma routes_handlers:
  assumes "r \<in> set (routes (registerApiRouters node))" "\<not> err r"
  shows "\<exists>h. handler r = Some h \<and> (gated h \<or> h \<in> xattrHandlers)"
proof -
  from assms(1) consider (bucket) c where "r \<in> set (registerBucketRouters c)"
    | (root) "r = listBucketsRoute"
    by (auto simp: registerApiRouters_def)
  then show ?thesis
  proof cases
    case bucket
    then show ?thesis using assms(2) bucket_handlers by blast
  next
    case root
    then show ?thesis by (simp add: listBucketsRoute_eq)
  qed
qed

section \<open>The authorization gate in the table\<close>

text \<open>
  C1, as amended. Every request that the router hands to a route reaches a handler that
  was registered through \<^verbatim>\<open>policyCheck\<close> with one required action, unless the route
  is one of the extended-attribute routes, whose handlers are registered without
  \<^verbatim>\<open>policyCheck\<close>.
\<close>

theorem handlers_gated_except_xattr:
  assumes "Match (registerApiRouters node) req = Selected r vars"
  shows "\<exists>h. handler r = Some h \<and> (gated h \<or> h \<in> xattrHandlers)"
proof -
  from assms have "find (\<lambda>r. Route_Match r req = Matches) (routes (registerApiRouters node)) = Some r"
    by (simp add: Match_Selected)
  then have "r \<in> set (routes (registerApiRouters node))" "Route_Match r req = Matches"
    by (auto dest: find_Some_D)
  then show ?thesis
    using routes_handlers by (simp add: Route_Match_Matches)
qed

text \<open>
  C1 as stated fails: a GET of an object with the query key \<^verbatim>\<open>xattr\<close> is handed to
  \<^verbatim>\<open>listObjectXAttrs\<close> itself, with no permission check in front of it.
\<close>

theorem xattr_route_not_gated:
  "selectedHandler (Match (registerApiRouters \<lparr>domains = []\<rparr>)
     \<lparr>reqMethod = ''GET'', reqHost = ''localhost'', reqPath = ''/b/o'',
      reqQuery = noValues(''xattr'' := ['''']), reqHeader = noValues\<rparr>)
   = Some (bare listObjectXAttrs)"
  by code_simp

theorem handlers_gated_except_xattr_witness:
  "\<exists>h. selectedHandler (Match (registerApiRouters \<lparr>domains = []\<rparr>)
     \<lparr>reqMethod = ''GET'', reqHost = ''localhost'', reqPath = ''/b/o'',
      reqQuery = noValues, reqHeader = noValues\<rparr>) = Some h \<and>
     (gated h \<or> h \<in> xattrHandlers)"
proof -
  let ?req = "\<lparr>reqMethod = ''GET'', reqHost = ''localhost'', reqPath = ''/b/o'',
      reqQuery = noValues, reqHeader = noValues\<rparr>"
  have "selectedHandler (Match (registerApiRouters \<lparr>domains = []\<rparr>) ?req) \<noteq> None"
    by code_simp
  then obtain r vars where m: "Match (registerApiRouters \<lparr>domains = []\<rparr>) ?req = Selected r vars"
    by (auto simp: selectedHandler_def split: Outcome.splits)
  from handlers_gated_except_xattr[OF m] m show ?thesis
    by (auto simp: selectedHandler_def)
qed

section \<open>Selection among the object routes\<close>

text \<open>
  C3. A DELETE of an object with the query key \<^verbatim>\<open>tagging\<close> should select the
  delete-object-tagging route. That route's path template lacks its closing brace, so
  the route carries an error and never matches; the request falls through to the plain
  delete-object route.
\<close>

theorem delete_tagging_deletes_object:
  "selectedHandler (Match (registerApiRouters \<lparr>domains = []\<rparr>)
     \<lparr>reqMethod = ''DELETE'', reqHost = ''localhost'', reqPath = ''/b/o'',
      reqQuery = noValues(''tagging'' := ['''']), reqHeader = noValues\<rparr>)
   = Some (policyCheck deleteObjectHandler [DeleteObjectAction])"
  by code_simp

section \<open>Requests that no route accepts\<close>

lemma Matches_hasShape:
  "Route_Match r req = Matches \<Longrightarrow> hasShape r req \<and> methodAccepts r req"
  by (auto simp: Route_Match_Matches hasShape_def methodAccepts_def list_all_iff)

lemma listBuckets_in_routes: "listBucketsRoute \<in> set (routes (registerApiRouters node))"
  by (simp add: registerApiRouters_def)

lemma listBuckets_hasShape: "hasShape listBucketsRoute req"
  by (simp add: listBucketsRoute_eq hasShape_def)

lemma listBuckets_Match:
  "Route_Match listBucketsRoute req = (if reqMethod req = ''GET'' then Matches else MethodMismatch)"
  by (simp add: listBucketsRoute_eq Route_Match_def)

lemma listBuckets_methodAccepts: "methodAccepts listBucketsRoute req \<longleftrightarrow> reqMethod req = ''GET''"
  by (simp add: listBucketsRoute_eq methodAccepts_def)

lemma Match_not_found:
  "Match (registerApiRouters node) req \<noteq> NotFound h"
proof
  assume nf: "Match (registerApiRouters node) req = NotFound h"
  let ?rs = "routes (registerApiRouters node)"
  from nf have fn: "find (\<lambda>r. Route_Match r req = Matches) ?rs = None"
    and nm: "\<not> list_ex (\<lambda>r. Route_Match r req = MethodMismatch) ?rs"
    unfolding Match_eq by (auto split: option.splits if_splits)
  have "Route_Match listBucketsRoute req \<noteq> Matches"
    by (rule find_None_D[OF fn listBuckets_in_routes])
  then have "Route_Match listBucketsRoute req = MethodMismatch"
    by (simp add: listBuckets_Match split: if_splits)
  with nm listBuckets_in_routes show False by (auto simp: list_ex_iff)
qed

lemma no_match_MethodNotAllowed:
  assumes "\<forall>r\<in>set (routes (registerApiRouters node)). Route_Match r req \<noteq> Matches"
  shows "Match (registerApiRouters node) req = MethodNotAllowed"
proof -
  let ?rs = "routes (registerApiRouters node)"
  have fn: "find (\<lambda>r. Route_Match r req = Matches) ?rs = None"
    using assms by (simp add: find_None_iff)
  have "NotFoundHandler (registerApiRouters node) = Some (bare unsupportedOperationHandler)"
    by (simp add: registerApiRouters_def)
  with fn have "Match (registerApiRouters node) req = MethodNotAllowed \<or>
      Match (registerApiRouters node) req = NotFound (bare unsupportedOperationHandler)"
    unfolding Match_eq by simp
  then show ?thesis using Match_not_found by blast
qed

text \<open>
  C2. A request that has the shape of some route, but only of routes of another method,
  ends as MethodNotAllowed; the not-found handler is reached only by a request that
  has the shape of no route; and the two outcomes are distinct. (The list-buckets route
  of the root router has no template, so every request has its shape, and the not-found
  handler is in fact never reached.)
\<close>

theorem other_method_is_MethodNotAllowed:
  "((\<exists>r\<in>set (routes (registerApiRouters node)). hasShape r req) \<and>
    (\<forall>r\<in>set (routes (registerApiRouters node)). hasShape r req \<longrightarrow> \<not> methodAccepts r req)
      \<longrightarrow> Match (registerApiRouters node) req = MethodNotAllowed) \<and>
   (Match (registerApiRouters node) req = NotFound h
      \<longrightarrow> \<not> (\<exists>r\<in>set (routes (registerApiRouters node)). hasShape r req)) \<and>
   MethodNotAllowed \<noteq> NotFound h"
  using no_match_MethodNotAllowed[of node req] Match_not_found[of node req h] Matches_hasShape[of _ req]
  by blast

theorem other_method_is_MethodNotAllowed_witness:
  "Match (registerApiRouters \<lparr>domains = []\<rparr>)
     \<lparr>reqMethod = ''PATCH'', reqHost = ''localhost'', reqPath = ''/b/o'',
      reqQuery = noValues, reqHeader = noValues\<rparr> = MethodNotAllowed"
proof -
  let ?req = "\<lparr>reqMethod = ''PATCH'', reqHost = ''localhost'', reqPath = ''/b/o'',
                  reqQuery = noValues, reqHeader = noValues\<rparr>"
  let ?rs = "routes (registerApiRouters \<lparr>domains = []\<rparr>)"
  have a: "\<exists>r\<in>set ?rs. hasShape r ?req" by code_simp
  have b: "\<forall>r\<in>set ?rs. hasShape r ?req \<longrightarrow> \<not> methodAccepts r ?req" by code_simp
  from a b other_method_is_MethodNotAllowed[of "\<lparr>domains = []\<rparr>" ?req]
  show ?thesis by blast
qed

section \<open>The gate\<close>



end
